theory Spec2Isabelle
  imports Complex_Main
begin

section \<open>Conventions of the model\<close>

text \<open>
  The program is \<^verbatim>\<open>src/temp.py\<close>: a Qt window that reads sensor lines from a serial
  port on a 100 ms timer, keeps six bounded series and sets the limits of four charts.

  \<^item> A \<^verbatim>\<open>datetime\<close> is an integer count of microseconds (its resolution), a
    \<^verbatim>\<open>timedelta\<close> likewise.
  \<^item> A Python \<^verbatim>\<open>float\<close> is a real number: arithmetic is exact and unbounded.
    Rounding, overflow (\<^verbatim>\<open>OverflowError\<close> of \<^verbatim>\<open>math.exp\<close>) and the non-finite
    values \<^verbatim>\<open>inf\<close> and \<^verbatim>\<open>nan\<close> have no counterpart; an input that would produce
    a non-finite float is answered by the outcome \<open>Unmodelled\<close>.
  \<^item> The text read from the port is a list of bytes; only ASCII input is modelled (a
    byte above 127 either fails to decode or yields text whose handling depends on
    Unicode tables), every other input is answered by \<open>Unmodelled\<close> as well.
  \<^item> An exception is a value: a handler returns an outcome together with the state it
    leaves behind, since the object \<^verbatim>\<open>self\<close> keeps every mutation made before a raise.
  \<^item> Each read of \<^verbatim>\<open>datetime.now()\<close> is an argument of the handler that performs it,
    in the order of the reads.
  \<^item> Calls that only draw (\<^verbatim>\<open>canvas.draw\<close>) or print are left out.
\<close>

type_synonym instant = int
type_synonym duration = int

definition seconds :: "int \<Rightarrow> duration" where
  "seconds n = n * 1000000"

definition minutes :: "int \<Rightarrow> duration" where
  "minutes n = seconds (60 * n)"

definition hours :: "int \<Rightarrow> duration" where
  "hours n = minutes (60 * n)"

datatype error = ValueError | ZeroDivisionError

datatype outcome = Returned | Raised error | Unmodelled

section \<open>Derived quantities\<close>

text \<open>
  \<^verbatim>\<open>calculate_dew_point\<close>, lines 15-19. The quotient \<^verbatim>\<open>(a * temp) / (b + temp)\<close> is
  evaluated first and raises \<^verbatim>\<open>ZeroDivisionError\<close> on a zero divisor; \<^verbatim>\<open>math.log\<close>
  raises \<^verbatim>\<open>ValueError\<close> on an argument that is not positive; the last quotient raises
  \<^verbatim>\<open>ZeroDivisionError\<close> when \<^verbatim>\<open>alpha\<close> equals \<^verbatim>\<open>a\<close>.
\<close>

definition calculate_dew_point :: "real \<Rightarrow> real \<Rightarrow> error + real" where
  "calculate_dew_point temp rh =
     (let a = 17.27; b = 237.7 in
      if b + temp = 0 then Inl ZeroDivisionError
      else if rh / 100.0 \<le> 0 then Inl ValueError
      else
        let alpha = ((a * temp) / (b + temp)) + ln (rh / 100.0) in
        if a - alpha = 0 then Inl ZeroDivisionError
        else Inr ((b * alpha) / (a - alpha)))"

text \<open>\<^verbatim>\<open>calculate_absolute_humidity\<close>, lines 21-22: two divisions, inner one first.\<close>

definition calculate_absolute_humidity :: "real \<Rightarrow> real \<Rightarrow> error + real" where
  "calculate_absolute_humidity temp rh =
     (if temp + 243.5 = 0 then Inl ZeroDivisionError
      else if 273.15 + temp = 0 then Inl ZeroDivisionError
      else Inr ((6.112 * exp ((17.67 * temp) / (temp + 243.5)) * rh * 2.1674) / (273.15 + temp)))"

section \<open>Library operations the program calls\<close>

subsection \<open>\<^verbatim>\<open>collections.deque(maxlen=...)\<close>\<close>

text \<open>
  \<^verbatim>\<open>append\<close> on a bounded deque adds on the right and, when the length then exceeds
  \<^verbatim>\<open>maxlen\<close>, removes one element on the left; with \<^verbatim>\<open>maxlen = 0\<close> it does nothing.
\<close>

definition deque_append :: "nat \<Rightarrow> 'a list \<Rightarrow> 'a \<Rightarrow> 'a list" where
  "deque_append maxlen d x =
     (if maxlen = 0 then d
      else let d' = d @ [x] in if maxlen < length d' then tl d' else d')"

subsection \<open>\<^verbatim>\<open>min\<close> and \<^verbatim>\<open>max\<close> of a sequence\<close>

text \<open>
  Both raise \<^verbatim>\<open>ValueError\<close> on an empty sequence; otherwise they scan from the left
  and replace the running value by a strictly smaller (larger) item.
\<close>

fun py_min :: "real list \<Rightarrow> error + real" where
  "py_min [] = Inl ValueError"
| "py_min (x # xs) = Inr (foldl (\<lambda>m y. if y < m then y else m) x xs)"

fun py_max :: "real list \<Rightarrow> error + real" where
  "py_max [] = Inl ValueError"
| "py_max (x # xs) = Inr (foldl (\<lambda>m y. if y > m then y else m) x xs)"

subsection \<open>\<^verbatim>\<open>str.strip\<close> and \<^verbatim>\<open>str.split(',')\<close> on ASCII text\<close>

definition ascii :: "string \<Rightarrow> bool" where
  "ascii s = list_all (\<lambda>c. (of_char c :: nat) < 128) s"

definition str_isspace :: "char \<Rightarrow> bool" where
  "str_isspace c = ((of_char c :: nat) \<in> {9, 10, 11, 12, 13, 28, 29, 30, 31, 32})"

definition strip :: "string \<Rightarrow> string" where
  "strip s = rev (dropWhile str_isspace (rev (dropWhile str_isspace s)))"

fun split_from :: "string \<Rightarrow> string \<Rightarrow> string list" where
  "split_from acc [] = [rev acc]"
| "split_from acc (c # cs) =
     (if c = CHR '','' then rev acc # split_from [] cs else split_from (c # acc) cs)"

definition split_comma :: "string \<Rightarrow> string list" where
  "split_comma s = split_from [] s"

subsection \<open>\<^verbatim>\<open>float(str)\<close> on ASCII text\<close>

text \<open>
  \<^verbatim>\<open>float\<close> drops the white space of the C locale at both ends, accepts an underscore
  only between two digits, then wants the whole rest to be a sign followed either by
  \<^verbatim>\<open>inf\<close>, \<^verbatim>\<open>infinity\<close> or \<^verbatim>\<open>nan\<close> in any letter case, or by a decimal numeral with
  at least one digit and an optional exponent. Anything else is \<^verbatim>\<open>ValueError\<close>
  (\<open>Invalid\<close>). A numeral denotes its exact value here.
\<close>

datatype float_result = Invalid | NonFinite | Finite real

definition c_isspace :: "char \<Rightarrow> bool" where
  "c_isspace c = ((of_char c :: nat) \<in> {9, 10, 11, 12, 13, 32})"

definition is_digit :: "char \<Rightarrow> bool" where
  "is_digit c = (48 \<le> (of_char c :: nat) \<and> (of_char c :: nat) \<le> 57)"

definition lower :: "char \<Rightarrow> char" where
  "lower c = (if 65 \<le> (of_char c :: nat) \<and> (of_char c :: nat) \<le> 90
              then char_of ((of_char c :: nat) + 32) else c)"

fun underscores_ok :: "char \<Rightarrow> string \<Rightarrow> bool" where
  "underscores_ok prev [] = (prev \<noteq> CHR ''_'')"
| "underscores_ok prev (c # cs) =
     (if c = CHR ''_'' then is_digit prev \<and> underscores_ok c cs
      else if prev = CHR ''_'' then is_digit c \<and> underscores_ok c cs
      else underscores_ok c cs)"

definition digits_value :: "string \<Rightarrow> nat" where
  "digits_value ds = foldl (\<lambda>n c. 10 * n + (of_char c - 48)) 0 ds"

definition parse_exponent :: "string \<Rightarrow> int option" where
  "parse_exponent r =
     (case r of
        [] \<Rightarrow> Some 0
      | c # r' \<Rightarrow>
          if c = CHR ''e'' \<or> c = CHR ''E'' then
            (let neg = (r' \<noteq> [] \<and> hd r' = CHR ''-'');
                 r'' = (if r' \<noteq> [] \<and> (hd r' = CHR ''+'' \<or> hd r' = CHR ''-'') then tl r' else r');
                 ds = takeWhile is_digit r''
             in if ds = [] \<or> dropWhile is_digit r'' \<noteq> [] then None
                else Some (if neg then - int (digits_value ds) else int (digits_value ds)))
          else None)"

definition parse_unsigned :: "string \<Rightarrow> float_result" where
  "parse_unsigned u =
     (if map lower u \<in> {''inf'', ''infinity'', ''nan''} then NonFinite
      else
        let ip = takeWhile is_digit u;
            r1 = dropWhile is_digit u;
            dot = (r1 \<noteq> [] \<and> hd r1 = CHR ''.'');
            fp = (if dot then takeWhile is_digit (tl r1) else []);
            r2 = (if dot then dropWhile is_digit (tl r1) else r1)
        in if ip = [] \<and> fp = [] then Invalid
           else (case parse_exponent r2 of
                   None \<Rightarrow> Invalid
                 | Some e \<Rightarrow>
                     let m = real (digits_value (ip @ fp));
                         k = e - int (length fp)
                     in Finite (if 0 \<le> k then m * 10 ^ nat k else m / 10 ^ nat (- k))))"

definition py_float :: "string \<Rightarrow> float_result" where
  "py_float s =
     (let t = rev (dropWhile c_isspace (rev (dropWhile c_isspace s))) in
      if \<not> underscores_ok (CHR 0x00) t then Invalid
      else
        let u = filter (\<lambda>c. c \<noteq> CHR ''_'') t;
            neg = (u \<noteq> [] \<and> hd u = CHR ''-'');
            v = (if u \<noteq> [] \<and> (hd u = CHR ''+'' \<or> hd u = CHR ''-'') then tl u else u)
        in (case parse_unsigned v of
              Finite x \<Rightarrow> Finite (if neg then - x else x)
            | r \<Rightarrow> r))"

section \<open>The window object\<close>

text \<open>
  The fields of \<^verbatim>\<open>InteractivePlot\<close> that the handlers read or write. An axes object
  keeps the limits the program last handed to \<^verbatim>\<open>set_xlim\<close> and \<^verbatim>\<open>set_ylim\<close>
  (\<open>None\<close> while the program has set none); a line keeps the two sequences last handed
  to \<^verbatim>\<open>set_data\<close>.
\<close>

record axes =
  xlim :: "(instant \<times> instant) option"
  ylim :: "(real \<times> real) option"

record plot_state =
  timestamps :: "instant list"
  temperatures :: "real list"
  temp_avg :: "real list"
  rel_humidities :: "real list"
  abs_humidities :: "real list"
  dew_points :: "real list"
  start_time :: "instant option"
  time_range :: duration
  ax1 :: axes
  ax2 :: axes
  ax3 :: axes
  ax4 :: axes
  temp_line :: "instant list \<times> real list"
  temp_avg_line :: "instant list \<times> real list"
  rh_line :: "instant list \<times> real list"
  ah_line :: "instant list \<times> real list"
  dp_line :: "instant list \<times> real list"

text \<open>\<^verbatim>\<open>self.max_points\<close>, line 75: the \<^verbatim>\<open>maxlen\<close> of all six deques.\<close>

definition max_points :: nat where
  "max_points = 4 * 60 * 60"

text \<open>The object at the end of \<^verbatim>\<open>__init__\<close>, lines 52-56, 75-81, 87 and 92.\<close>

definition init_state :: plot_state where
  "init_state =
     \<lparr>timestamps = [], temperatures = [], temp_avg = [], rel_humidities = [],
      abs_humidities = [], dew_points = [], start_time = None, time_range = hours 4,
      ax1 = \<lparr>xlim = None, ylim = None\<rparr>, ax2 = \<lparr>xlim = None, ylim = None\<rparr>,
      ax3 = \<lparr>xlim = None, ylim = None\<rparr>, ax4 = \<lparr>xlim = None, ylim = None\<rparr>,
      temp_line = ([], []), temp_avg_line = ([], []), rh_line = ([], []),
      ah_line = ([], []), dp_line = ([], [])\<rparr>"

section \<open>\<^verbatim>\<open>adjust_y_axis_ranges\<close>\<close>

text \<open>The six list comprehensions of lines 152-157, for a given \<^verbatim>\<open>start_time\<close>.\<close>

definition visible_timestamps :: "plot_state \<Rightarrow> instant \<Rightarrow> instant list" where
  "visible_timestamps s start = [t \<leftarrow> timestamps s. t \<ge> start]"

definition visible_temps :: "plot_state \<Rightarrow> instant \<Rightarrow> real list" where
  "visible_temps s start = [t. (t, ts) \<leftarrow> zip (temperatures s) (timestamps s), ts \<ge> start]"

definition visible_temp_avgs :: "plot_state \<Rightarrow> instant \<Rightarrow> real list" where
  "visible_temp_avgs s start = [t. (t, ts) \<leftarrow> zip (temp_avg s) (timestamps s), ts \<ge> start]"

definition visible_rhs :: "plot_state \<Rightarrow> instant \<Rightarrow> real list" where
  "visible_rhs s start = [rh. (rh, ts) \<leftarrow> zip (rel_humidities s) (timestamps s), ts \<ge> start]"

definition visible_ahs :: "plot_state \<Rightarrow> instant \<Rightarrow> real list" where
  "visible_ahs s start = [ah. (ah, ts) \<leftarrow> zip (abs_humidities s) (timestamps s), ts \<ge> start]"

definition visible_dps :: "plot_state \<Rightarrow> instant \<Rightarrow> real list" where
  "visible_dps s start = [dp. (dp, ts) \<leftarrow> zip (dew_points s) (timestamps s), ts \<ge> start]"

definition bind_err :: "error + 'a \<Rightarrow> ('a \<Rightarrow> error + 'b) \<Rightarrow> error + 'b" where
  "bind_err r f = (case r of Inl e \<Rightarrow> Inl e | Inr v \<Rightarrow> f v)"

text \<open>
  Lines 147-175. \<open>current_time\<close> is the clock read of line 148. Each of the four
  \<^verbatim>\<open>if\<close> statements runs in turn on the object the earlier ones left; an exception
  of \<^verbatim>\<open>min\<close> or \<^verbatim>\<open>max\<close> ends the call there.
\<close>

definition adjust_y_axis_ranges :: "plot_state \<Rightarrow> instant \<Rightarrow> outcome \<times> plot_state" where
  "adjust_y_axis_ranges s current_time =
     (let start = current_time - time_range s in
      case (if visible_temps s start \<noteq> [] then
              bind_err (py_min (visible_temps s start)) (\<lambda>m1.
              bind_err (py_min (visible_temp_avgs s start)) (\<lambda>m2.
              bind_err (py_max (visible_temps s start)) (\<lambda>M1.
              bind_err (py_max (visible_temp_avgs s start)) (\<lambda>M2.
                let temp_min = min m1 m2; temp_max = max M1 M2 in
                Inr (s\<lparr>ax1 := (ax1 s)\<lparr>ylim := Some (temp_min - 1, temp_max + 1)\<rparr>\<rparr>)))))
            else Inr s) of
        Inl e \<Rightarrow> (Raised e, s)
      | Inr s1 \<Rightarrow>
      case (if visible_rhs s start \<noteq> [] then
              bind_err (py_min (visible_rhs s start)) (\<lambda>rh_min.
              bind_err (py_max (visible_rhs s start)) (\<lambda>rh_max.
                Inr (s1\<lparr>ax2 := (ax2 s1)\<lparr>ylim := Some (max 0 (rh_min - 5), min 100 (rh_max + 5))\<rparr>\<rparr>)))
            else Inr s1) of
        Inl e \<Rightarrow> (Raised e, s1)
      | Inr s2 \<Rightarrow>
      case (if visible_ahs s start \<noteq> [] then
              bind_err (py_min (visible_ahs s start)) (\<lambda>ah_min.
              bind_err (py_max (visible_ahs s start)) (\<lambda>ah_max.
                Inr (s2\<lparr>ax3 := (ax3 s2)\<lparr>ylim := Some (ah_min - 0.5, ah_max + 0.5)\<rparr>\<rparr>)))
            else Inr s2) of
        Inl e \<Rightarrow> (Raised e, s2)
      | Inr s3 \<Rightarrow>
      case (if visible_dps s start \<noteq> [] then
              bind_err (py_min (visible_dps s start)) (\<lambda>dp_min.
              bind_err (py_max (visible_dps s start)) (\<lambda>dp_max.
                Inr (s3\<lparr>ax4 := (ax4 s3)\<lparr>ylim := Some (dp_min - 1, dp_max + 1)\<rparr>\<rparr>)))
            else Inr s3) of
        Inl e \<Rightarrow> (Raised e, s3)
      | Inr s4 \<Rightarrow> (Returned, s4))"

section \<open>\<^verbatim>\<open>update_time_range\<close>\<close>

text \<open>The loop \<^verbatim>\<open>for ax in (self.ax1, self.ax2, self.ax3, self.ax4): ax.set_xlim(lo, hi)\<close>.\<close>

definition set_xlim_all :: "plot_state \<Rightarrow> instant \<Rightarrow> instant \<Rightarrow> plot_state" where
  "set_xlim_all s lo hi =
     s\<lparr>ax1 := (ax1 s)\<lparr>xlim := Some (lo, hi)\<rparr>, ax2 := (ax2 s)\<lparr>xlim := Some (lo, hi)\<rparr>,
       ax3 := (ax3 s)\<lparr>xlim := Some (lo, hi)\<rparr>, ax4 := (ax4 s)\<lparr>xlim := Some (lo, hi)\<rparr>\<rparr>"

text \<open>
  Lines 177-195. \<open>current_time\<close> is the clock read of line 190, \<open>now2\<close> the one that
  \<^verbatim>\<open>adjust_y_axis_ranges\<close> performs afterwards.
\<close>

definition update_time_range :: "plot_state \<Rightarrow> int \<Rightarrow> instant \<Rightarrow> instant \<Rightarrow> outcome \<times> plot_state" where
  "update_time_range s index current_time now2 =
     (let s1 = s\<lparr>time_range :=
                  (if index = 0 then minutes 1
                   else if index = 1 then minutes 5
                   else if index = 2 then minutes 20
                   else if index = 3 then hours 1
                   else hours 4)\<rparr>;
          s2 = set_xlim_all s1 (current_time - time_range s1) current_time
      in adjust_y_axis_ranges s2 now2)"

section \<open>\<^verbatim>\<open>update_plot\<close>\<close>

text \<open>Lines 111-115: the five appends that precede the moving average.\<close>

definition append_reading :: "plot_state \<Rightarrow> instant \<Rightarrow> real \<Rightarrow> real \<Rightarrow> real \<Rightarrow> real \<Rightarrow> plot_state" where
  "append_reading s current_time temp rh ah dp =
     s\<lparr>timestamps := deque_append max_points (timestamps s) current_time,
       temperatures := deque_append max_points (temperatures s) temp,
       rel_humidities := deque_append max_points (rel_humidities s) rh,
       abs_humidities := deque_append max_points (abs_humidities s) ah,
       dew_points := deque_append max_points (dew_points s) dp\<rparr>"

text \<open>Lines 118-119: the temperatures whose timestamp is later than twenty seconds ago.\<close>

definition recent_temps :: "plot_state \<Rightarrow> instant \<Rightarrow> real list" where
  "recent_temps s current_time =
     (let twenty_sec_ago = current_time - seconds 20 in
      [t. (t, ts) \<leftarrow> zip (temperatures s) (timestamps s), ts > twenty_sec_ago])"

text \<open>Lines 120-124: the value appended to \<^verbatim>\<open>temp_avg\<close>.\<close>

definition moving_avg :: "plot_state \<Rightarrow> instant \<Rightarrow> real \<Rightarrow> real" where
  "moving_avg s current_time temp =
     (if recent_temps s current_time \<noteq> []
      then sum_list (recent_temps s current_time) / real (length (recent_temps s current_time))
      else temp)"

text \<open>
  Lines 104-135, entered once both fields are floats. \<open>current_time\<close> is the clock read
  of line 104, \<open>now2\<close> the one inside \<^verbatim>\<open>adjust_y_axis_ranges\<close>.
\<close>

definition plot_reading :: "plot_state \<Rightarrow> real \<Rightarrow> real \<Rightarrow> instant \<Rightarrow> instant \<Rightarrow> outcome \<times> plot_state" where
  "plot_reading s temp rh current_time now2 =
     (let s0 = s\<lparr>start_time := (if start_time s = None then Some current_time else start_time s)\<rparr> in
      case calculate_absolute_humidity temp rh of
        Inl e \<Rightarrow> (Raised e, s0)
      | Inr ah \<Rightarrow>
      case calculate_dew_point temp rh of
        Inl e \<Rightarrow> (Raised e, s0)
      | Inr dp \<Rightarrow>
        let s1 = append_reading s0 current_time temp rh ah dp;
            s2 = s1\<lparr>temp_avg := deque_append max_points (temp_avg s1) (moving_avg s1 current_time temp)\<rparr>;
            s3 = s2\<lparr>temp_line := (timestamps s2, temperatures s2),
                    temp_avg_line := (timestamps s2, temp_avg s2),
                    rh_line := (timestamps s2, rel_humidities s2),
                    ah_line := (timestamps s2, abs_humidities s2),
                    dp_line := (timestamps s2, dew_points s2)\<rparr>
        in case adjust_y_axis_ranges s3 now2 of
             (Raised e, s4) \<Rightarrow> (Raised e, s4)
           | (_, s4) \<Rightarrow> (Returned, set_xlim_all s4 (current_time - time_range s4) current_time))"

text \<open>
  Lines 94-102. \<open>waiting\<close> is \<open>None\<close> when \<^verbatim>\<open>self.ser.in_waiting\<close> is zero and otherwise
  the bytes that \<^verbatim>\<open>readline\<close> returns. \<^verbatim>\<open>float(temp)\<close> is evaluated before
  \<^verbatim>\<open>float(rh)\<close>, and neither call is guarded.
\<close>

definition update_plot :: "plot_state \<Rightarrow> string option \<Rightarrow> instant \<Rightarrow> instant \<Rightarrow> outcome \<times> plot_state" where
  "update_plot s waiting now1 now2 =
     (case waiting of
        None \<Rightarrow> (Returned, s)
      | Some raw \<Rightarrow>
          if \<not> ascii raw then (Unmodelled, s)
          else
            let line = strip raw; parts = split_comma line in
            if length parts = 4 then
              (case py_float (parts ! 1) of
                 Invalid \<Rightarrow> (Raised ValueError, s)
               | NonFinite \<Rightarrow>
                   (case py_float (parts ! 2) of
                      Invalid \<Rightarrow> (Raised ValueError, s)
                    | _ \<Rightarrow> (Unmodelled, s))
               | Finite temp \<Rightarrow>
                   (case py_float (parts ! 2) of
                      Invalid \<Rightarrow> (Raised ValueError, s)
                    | NonFinite \<Rightarrow> (Unmodelled, s)
                    | Finite rh \<Rightarrow> plot_reading s temp rh now1 now2))
            else (Returned, s))"

section \<open>Runs of the event loop\<close>




section \<open>Notions used to state the properties\<close>

text \<open>The six series have one length: every index is one buffered point.\<close>

definition aligned :: "plot_state \<Rightarrow> bool" where
  "aligned s =
     (length (temperatures s) = length (timestamps s) \<and>
      length (temp_avg s) = length (timestamps s) \<and>
      length (rel_humidities s) = length (timestamps s) \<and>
      length (abs_humidities s) = length (timestamps s) \<and>
      length (dew_points s) = length (timestamps s))"













text \<open>
  An object with three buffered points, 0 s, 30 s and 100 s after the epoch, and the
  one-minute window selected; it serves as a concrete input below.
\<close>

definition sample_state :: plot_state where
  "sample_state =
     init_state\<lparr>timestamps := [0, seconds 30, seconds 100],
                temperatures := [20, 22, 21],
                temp_avg := [20, 21, 21.5],
                rel_humidities := [40, 50, 60],
                abs_humidities := [7, 8, 9],
                dew_points := [6, 11, 13],
                time_range := minutes 1\<rparr>"

section \<open>Parsing of the sample lines\<close>

lemmas float_defs =
  py_float_def parse_unsigned_def parse_exponent_def digits_value_def
  is_digit_def c_isspace_def lower_def

lemma malformed_line_parts:
  "split_comma (strip (''12:00:00,abc,55,x'' @ [CHR 0x0A])) = [''12:00:00'', ''abc'', ''55'', ''x'']"
  by (simp add: split_comma_def strip_def str_isspace_def)

lemma malformed_line_ascii: "ascii (''12:00:00,abc,55,x'' @ [CHR 0x0A])"
  by (simp add: ascii_def)

lemma float_abc: "py_float ''abc'' = Invalid"
  by (simp add: float_defs)

section \<open>Bounded deques\<close>








lemma deque_append_room: "length d < m \<Longrightarrow> deque_append m d x = d @ [x]"
  by (simp add: deque_append_def)

lemma deque_append_full: "0 < m \<Longrightarrow> length d = m \<Longrightarrow> deque_append m d x = tl d @ [x]"
  by (cases d) (simp_all add: deque_append_def)


lemma fold_min: "foldl (\<lambda>m y. if y < m then y else m) x xs = Min (set (x # xs))" for x :: real
proof -
  have "(\<lambda>m y. if y < m then y else m) = (\<lambda>m y :: real. min y m)"
    by (auto simp: fun_eq_iff min_def)
  then have "foldl (\<lambda>m y. if y < m then y else m) x xs = fold min xs x"
    by (simp add: foldl_conv_fold)
  then show ?thesis using Min.set_eq_fold [of x xs] by simp
qed

lemma fold_max: "foldl (\<lambda>m y. if y > m then y else m) x xs = Max (set (x # xs))" for x :: real
proof -
  have "(\<lambda>m y. if y > m then y else m) = (\<lambda>m y :: real. max y m)"
    by (auto simp: fun_eq_iff max_def)
  then have "foldl (\<lambda>m y. if y > m then y else m) x xs = fold max xs x"
    by (simp add: foldl_conv_fold)
  then show ?thesis using Max.set_eq_fold [of x xs] by simp
qed

lemma py_min_Min: "xs \<noteq> [] \<Longrightarrow> py_min xs = Inr (Min (set xs))"
  by (cases xs) (simp_all only: py_min.simps fold_min, simp)

lemma py_max_Max: "xs \<noteq> [] \<Longrightarrow> py_max xs = Inr (Max (set xs))"
  by (cases xs) (simp_all only: py_max.simps fold_max, simp)

section \<open>The visible subset and the axis ranges\<close>

lemma comprehension_zip:
  "[v. (v, ts) \<leftarrow> zip vs tss, P ts] = map fst (filter (\<lambda>p. P (snd p)) (zip vs tss))"
  by (induction vs tss rule: list_induct2') auto

lemma length_comprehension_zip:
  "length vs = length tss \<Longrightarrow> length [v. (v, ts) \<leftarrow> zip vs tss, P ts] = length (filter P tss)"
  unfolding comprehension_zip
  by (induction vs tss rule: list_induct2) auto

lemmas visible_defs =
  visible_timestamps_def visible_temps_def visible_temp_avgs_def visible_rhs_def
  visible_ahs_def visible_dps_def

lemma visible_lengths:
  assumes "aligned s"
  shows "length (visible_temps s start) = length (visible_timestamps s start)"
    and "length (visible_temp_avgs s start) = length (visible_timestamps s start)"
    and "length (visible_rhs s start) = length (visible_timestamps s start)"
    and "length (visible_ahs s start) = length (visible_timestamps s start)"
    and "length (visible_dps s start) = length (visible_timestamps s start)"
  using assms unfolding visible_defs aligned_def
  by (simp_all add: length_comprehension_zip)

lemma visible_empty_iff:
  assumes "aligned s"
  shows "visible_temps s start = [] \<longleftrightarrow> visible_timestamps s start = []"
    and "visible_temp_avgs s start = [] \<longleftrightarrow> visible_timestamps s start = []"
    and "visible_rhs s start = [] \<longleftrightarrow> visible_timestamps s start = []"
    and "visible_ahs s start = [] \<longleftrightarrow> visible_timestamps s start = []"
    and "visible_dps s start = [] \<longleftrightarrow> visible_timestamps s start = []"
  using visible_lengths [OF assms, of start] by (metis length_0_conv)+

lemma adjust_empty:
  assumes "aligned s" and "visible_timestamps s (T - time_range s) = []"
  shows "adjust_y_axis_ranges s T = (Returned, s)"
  using assms(2) unfolding adjust_y_axis_ranges_def Let_def
  by (simp add: visible_empty_iff [OF assms(1)])

lemma adjust_nonempty:
  assumes "aligned s" and "visible_timestamps s (T - time_range s) \<noteq> []"
  shows "adjust_y_axis_ranges s T =
     (Returned,
      s\<lparr>ax1 := (ax1 s)\<lparr>ylim := Some
             (min (Min (set (visible_temps s (T - time_range s))))
                  (Min (set (visible_temp_avgs s (T - time_range s)))) - 1,
              max (Max (set (visible_temps s (T - time_range s))))
                  (Max (set (visible_temp_avgs s (T - time_range s)))) + 1)\<rparr>,
        ax2 := (ax2 s)\<lparr>ylim := Some
             (max 0 (Min (set (visible_rhs s (T - time_range s))) - 5),
              min 100 (Max (set (visible_rhs s (T - time_range s))) + 5))\<rparr>,
        ax3 := (ax3 s)\<lparr>ylim := Some
             (Min (set (visible_ahs s (T - time_range s))) - 0.5,
              Max (set (visible_ahs s (T - time_range s))) + 0.5)\<rparr>,
        ax4 := (ax4 s)\<lparr>ylim := Some
             (Min (set (visible_dps s (T - time_range s))) - 1,
              Max (set (visible_dps s (T - time_range s))) + 1)\<rparr>\<rparr>)"
proof -
  let ?st = "T - time_range s"
  have ne: "visible_temps s ?st \<noteq> []" "visible_temp_avgs s ?st \<noteq> []"
    "visible_rhs s ?st \<noteq> []" "visible_ahs s ?st \<noteq> []" "visible_dps s ?st \<noteq> []"
    using assms(2) by (simp_all add: visible_empty_iff [OF assms(1)])
  have vis: "visible_rhs (s\<lparr>ax1 := a\<rparr>) = visible_rhs s"
      "visible_ahs (s\<lparr>ax1 := a, ax2 := b\<rparr>) = visible_ahs s"
      "visible_dps (s\<lparr>ax1 := a, ax2 := b, ax3 := c\<rparr>) = visible_dps s" for a b c
    by (simp_all add: visible_defs fun_eq_iff)
  show ?thesis
    unfolding adjust_y_axis_ranges_def Let_def
    by (simp add: ne py_min_Min py_max_Max bind_err_def vis)
qed

section \<open>What one handler call does\<close>

lemma adjust_frame:
  assumes "aligned s"
  shows "\<exists>y1 y2 y3 y4. adjust_y_axis_ranges s T =
     (Returned, s\<lparr>ax1 := (ax1 s)\<lparr>ylim := y1\<rparr>, ax2 := (ax2 s)\<lparr>ylim := y2\<rparr>,
                  ax3 := (ax3 s)\<lparr>ylim := y3\<rparr>, ax4 := (ax4 s)\<lparr>ylim := y4\<rparr>\<rparr>)"
proof (cases "visible_timestamps s (T - time_range s) = []")
  case True
  have "s = s\<lparr>ax1 := (ax1 s)\<lparr>ylim := ylim (ax1 s)\<rparr>, ax2 := (ax2 s)\<lparr>ylim := ylim (ax2 s)\<rparr>,
                  ax3 := (ax3 s)\<lparr>ylim := ylim (ax3 s)\<rparr>, ax4 := (ax4 s)\<lparr>ylim := ylim (ax4 s)\<rparr>\<rparr>"
    by simp
  with adjust_empty [OF assms True] show ?thesis by metis
next
  case False
  from adjust_nonempty [OF assms False] show ?thesis by blast
qed









lemma aligned_frame:
  "aligned (s\<lparr>ax1 := a\<rparr>) = aligned s" "aligned (s\<lparr>ax2 := a\<rparr>) = aligned s"
  "aligned (s\<lparr>ax3 := a\<rparr>) = aligned s" "aligned (s\<lparr>ax4 := a\<rparr>) = aligned s"
  "aligned (s\<lparr>start_time := st\<rparr>) = aligned s" "aligned (s\<lparr>time_range := d\<rparr>) = aligned s"
  by (simp_all add: aligned_def)

lemma aligned_set_xlim_all: "aligned (set_xlim_all s lo hi) = aligned s"
  by (simp add: set_xlim_all_def aligned_def)



lemma update_time_range_result:
  assumes "aligned s"
  shows "\<exists>y1 y2 y3 y4 d. update_time_range s index T1 T2 =
     (Returned,
      s\<lparr>time_range := d,
        ax1 := \<lparr>xlim = Some (T1 - d, T1), ylim = y1\<rparr>, ax2 := \<lparr>xlim = Some (T1 - d, T1), ylim = y2\<rparr>,
        ax3 := \<lparr>xlim = Some (T1 - d, T1), ylim = y3\<rparr>, ax4 := \<lparr>xlim = Some (T1 - d, T1), ylim = y4\<rparr>\<rparr>) \<and>
     d = (if index = 0 then minutes 1 else if index = 1 then minutes 5
          else if index = 2 then minutes 20 else if index = 3 then hours 1 else hours 4)"
proof -
  let ?d = "if index = 0 then minutes 1 else if index = 1 then minutes 5
          else if index = 2 then minutes 20 else if index = 3 then hours 1 else hours 4"
  let ?s2 = "set_xlim_all (s\<lparr>time_range := ?d\<rparr>) (T1 - ?d) T1"
  have al: "aligned ?s2" using assms by (simp add: aligned_set_xlim_all aligned_frame)
  from adjust_frame [OF al, of T2] obtain y1 y2 y3 y4 where
    "adjust_y_axis_ranges ?s2 T2 =
       (Returned, ?s2\<lparr>ax1 := (ax1 ?s2)\<lparr>ylim := y1\<rparr>, ax2 := (ax2 ?s2)\<lparr>ylim := y2\<rparr>,
                  ax3 := (ax3 ?s2)\<lparr>ylim := y3\<rparr>, ax4 := (ax4 ?s2)\<lparr>ylim := y4\<rparr>\<rparr>)"
    by blast
  then have "update_time_range s index T1 T2 =
     (Returned,
      s\<lparr>time_range := ?d,
        ax1 := \<lparr>xlim = Some (T1 - ?d, T1), ylim = y1\<rparr>, ax2 := \<lparr>xlim = Some (T1 - ?d, T1), ylim = y2\<rparr>,
        ax3 := \<lparr>xlim = Some (T1 - ?d, T1), ylim = y3\<rparr>, ax4 := \<lparr>xlim = Some (T1 - ?d, T1), ylim = y4\<rparr>\<rparr>)"
    unfolding update_time_range_def Let_def
    by (simp add: set_xlim_all_def split del: if_split)
  then show ?thesis by blast
qed

section \<open>Invariants of a run\<close>






lemma aligned_init: "aligned init_state"
  by (simp add: aligned_def init_state_def)


section \<open>The moving average\<close>






section \<open>A well-formed sample line\<close>








section \<open>Further facts about the handlers\<close>


lemma aligned_sample: "aligned sample_state"
  by (simp add: aligned_def sample_state_def init_state_def)




text \<open>
  Any line of four fields whose temperature or humidity field is not a float ends the
  handler with \<^verbatim>\<open>ValueError\<close> and leaves the object as it was.
\<close>

lemma update_plot_invalid_field:
  assumes "ascii raw" and "length (split_comma (strip raw)) = 4"
    and "py_float (split_comma (strip raw) ! 1) = Invalid \<or>
         py_float (split_comma (strip raw) ! 2) = Invalid"
  shows "update_plot s (Some raw) T1 T2 = (Raised ValueError, s)"
  using assms unfolding update_plot_def Let_def
  by (cases "py_float (split_comma (strip raw) ! 1)"; cases "py_float (split_comma (strip raw) ! 2)")
     simp_all

section \<open>The claims\<close>

text \<open>
  C1. A line of four fields whose temperature field is not a number, such as
  \<^verbatim>\<open>12:00:00,abc,55,x\<close>, is claimed to be skipped without a crash and without touching
  the buffer. On the code, \<^verbatim>\<open>float('abc')\<close> raises \<^verbatim>\<open>ValueError\<close> at line 101 and
  nothing catches it: the handler ends with that exception. The object is indeed left
  as it was, since the raise comes before every assignment.
\<close>

theorem update_plot_malformed_raises:
  "update_plot s (Some (''12:00:00,abc,55,x'' @ [CHR 0x0A])) now1 now2 = (Raised ValueError, s)"
  unfolding update_plot_def
  by (simp only: option.case malformed_line_ascii malformed_line_parts Let_def) (simp add: float_abc)










text \<open>
  C6. When the filtered list of a series is empty, \<^verbatim>\<open>adjust_y_axis_ranges\<close> returns
  normally and leaves the object, hence every range set before, as it was.
\<close>

theorem empty_window_keeps_ranges:
  assumes "aligned s"
    and "visible_temps s (T - time_range s) = [] \<or> visible_temp_avgs s (T - time_range s) = [] \<or>
         visible_rhs s (T - time_range s) = [] \<or> visible_ahs s (T - time_range s) = [] \<or>
         visible_dps s (T - time_range s) = []"
  shows "adjust_y_axis_ranges s T = (Returned, s)"
proof -
  from assms(2) have "visible_timestamps s (T - time_range s) = []"
    by (simp add: visible_empty_iff [OF assms(1)])
  then show ?thesis by (rule adjust_empty [OF assms(1)])
qed

theorem empty_window_keeps_ranges_witness:
  "adjust_y_axis_ranges sample_state (seconds 1000) = (Returned, sample_state)"
proof -
  have "visible_temps sample_state (seconds 1000 - time_range sample_state) = []"
    by (simp add: visible_temps_def sample_state_def seconds_def minutes_def)
  then show ?thesis
    by (intro empty_window_keeps_ranges [OF aligned_sample]) simp
qed

text \<open>
  C7. A selection change with index 0 to 4 stores the duration of 1, 5, 20, 60 or 240
  minutes and, in the same call, sets the x-range of all four charts to that duration
  ending at the clock read of the call; it returns normally.
\<close>

theorem selection_change_immediate:
  assumes "aligned s" and "0 \<le> index" and "index \<le> 4"
  shows "fst (update_time_range s index T1 T2) = Returned \<and>
     time_range (snd (update_time_range s index T1 T2)) =
       seconds ([60, 300, 1200, 3600, 14400] ! nat index) \<and>
     xlim (ax1 (snd (update_time_range s index T1 T2))) =
       Some (T1 - seconds ([60, 300, 1200, 3600, 14400] ! nat index), T1) \<and>
     xlim (ax2 (snd (update_time_range s index T1 T2))) =
       Some (T1 - seconds ([60, 300, 1200, 3600, 14400] ! nat index), T1) \<and>
     xlim (ax3 (snd (update_time_range s index T1 T2))) =
       Some (T1 - seconds ([60, 300, 1200, 3600, 14400] ! nat index), T1) \<and>
     xlim (ax4 (snd (update_time_range s index T1 T2))) =
       Some (T1 - seconds ([60, 300, 1200, 3600, 14400] ! nat index), T1)"
proof -
  from assms(2,3) have "index = 0 \<or> index = 1 \<or> index = 2 \<or> index = 3 \<or> index = 4" by arith
  then have d: "(if index = 0 then minutes 1 else if index = 1 then minutes 5
          else if index = 2 then minutes 20 else if index = 3 then hours 1 else hours 4) =
       seconds ([60, 300, 1200, 3600, 14400] ! nat index)"
    by (auto simp: minutes_def hours_def)
  from update_time_range_result [OF assms(1), of index T1 T2] show ?thesis
    unfolding d by auto
qed

theorem selection_change_immediate_witness:
  "time_range init_state = seconds 14400 \<and>
   fst (update_time_range init_state 0 (seconds 100000) (seconds 100001)) = Returned \<and>
   xlim (ax1 (snd (update_time_range init_state 0 (seconds 100000) (seconds 100001)))) =
     Some (seconds 100000 - seconds 60, seconds 100000) \<and>
   xlim (ax4 (snd (update_time_range init_state 0 (seconds 100000) (seconds 100001)))) =
     Some (seconds 100000 - seconds 60, seconds 100000)"
proof -
  have h: "(0::int) \<le> 0" "(0::int) \<le> 4" by simp_all
  have "time_range init_state = seconds 14400"
    by (simp add: init_state_def hours_def minutes_def)
  with selection_change_immediate [OF aligned_init h, of "seconds 100000" "seconds 100001"]
  show ?thesis by simp
qed






end
